theory Spec2Isabelle
  imports Complex_Main
begin

section \<open>JavaScript values\<close>

text \<open>
  The server is an Express application (\<^verbatim>\<open>server.js\<close>, in two variants: the plain one and
  the connected-account one, whose three POST handlers are the same code). Request bodies,
  the option objects handed to the Stripe client and the response bodies are plain
  JavaScript values. A number is a double: the handlers never compute with it, they only
  test it for truthiness and pass it on, so a finite number is kept as the rational it
  denotes (negative zero is the rational zero; both are falsy).
\<close>

datatype jsnum = NaN | PosInfinity | NegInfinity | Finite rat

datatype jsval =
    JUndefined
  | JNull
  | JBool bool
  | JNum jsnum
  | JStr string
  | JArr "jsval list"
  | JObj "(string \<times> jsval) list"

text \<open>An object is the list of its own properties, in insertion order.\<close>

type_synonym js_object = "(string \<times> jsval) list"

text \<open>Reading a property that the object does not have gives \<^verbatim>\<open>undefined\<close>.\<close>

definition get_prop :: "js_object \<Rightarrow> string \<Rightarrow> jsval" where
  "get_prop obj k = (case map_of obj k of None \<Rightarrow> JUndefined | Some v \<Rightarrow> v)"

definition has_prop :: "js_object \<Rightarrow> string \<Rightarrow> bool" where
  "has_prop obj k = (map_of obj k \<noteq> None)"

text \<open>The assignment \<^verbatim>\<open>obj.k = v\<close>: overwrite in place, or add the property at the end.\<close>

fun set_prop :: "js_object \<Rightarrow> string \<Rightarrow> jsval \<Rightarrow> js_object" where
  "set_prop [] k v = [(k, v)]"
| "set_prop ((k', v') # ps) k v =
     (if k' = k then (k, v) # ps else (k', v') # set_prop ps k v)"

text \<open>ToBoolean, the test of \<^verbatim>\<open>if (x)\<close> and of \<^verbatim>\<open>x || y\<close>.\<close>

fun to_boolean :: "jsval \<Rightarrow> bool" where
  "to_boolean JUndefined = False"
| "to_boolean JNull = False"
| "to_boolean (JBool b) = b"
| "to_boolean (JNum n) = (case n of NaN \<Rightarrow> False | Finite q \<Rightarrow> q \<noteq> 0 | _ \<Rightarrow> True)"
| "to_boolean (JStr s) = (s \<noteq> [])"
| "to_boolean (JArr xs) = True"
| "to_boolean (JObj ps) = True"

text \<open>\<^verbatim>\<open>a || b\<close> is \<^verbatim>\<open>a\<close> when \<^verbatim>\<open>a\<close> is truthy and \<^verbatim>\<open>b\<close> otherwise.\<close>

definition js_or :: "jsval \<Rightarrow> jsval \<Rightarrow> jsval" where
  "js_or a b = (if to_boolean a then a else b)"

section \<open>The Stripe client\<close>

text \<open>
  What the client throws is an \<^verbatim>\<open>Error\<close>; the handlers read its \<^verbatim>\<open>message\<close> only.
\<close>

datatype js_error = Error (message: string)

text \<open>
  The handlers use three methods of the client: \<^verbatim>\<open>stripe.customers.create()\<close>,
  \<^verbatim>\<open>stripe.paymentIntents.create(options)\<close> and \<^verbatim>\<open>stripe.setupIntents.create(options)\<close>.
  Each either throws or resolves to an object, and may change the processor's state
  \<open>'s\<close>, about which nothing is assumed. The connected-account variant constructs the
  client with a \<^verbatim>\<open>stripeAccount\<close>; that is part of the client given here.
\<close>

record 's stripe_client =
  customers_create :: "'s \<Rightarrow> (js_error + js_object) \<times> 's"
  paymentIntents_create :: "js_object \<Rightarrow> 's \<Rightarrow> (js_error + js_object) \<times> 's"
  setupIntents_create :: "js_object \<Rightarrow> 's \<Rightarrow> (js_error + js_object) \<times> 's"

text \<open>
  A trace records every call made to the client, with its argument and its outcome,
  in the order of the calls.
\<close>

datatype stripe_call =
    CustomersCreate
  | PaymentIntentsCreate js_object
  | SetupIntentsCreate js_object

type_synonym stripe_event = "stripe_call \<times> (js_error + js_object)"

text \<open>
  An asynchronous computation of the server: from the processor's state it throws or
  returns, having made some calls and left the processor in a new state.
\<close>

type_synonym ('s, 'a) stripe_io = "'s \<Rightarrow> (js_error + 'a) \<times> stripe_event list \<times> 's"

definition io_result :: "(js_error + 'a) \<times> stripe_event list \<times> 's \<Rightarrow> js_error + 'a" where
  "io_result r = fst r"

definition io_trace :: "(js_error + 'a) \<times> stripe_event list \<times> 's \<Rightarrow> stripe_event list" where
  "io_trace r = fst (snd r)"

definition io_state :: "(js_error + 'a) \<times> stripe_event list \<times> 's \<Rightarrow> 's" where
  "io_state r = snd (snd r)"

definition return_io :: "'a \<Rightarrow> ('s, 'a) stripe_io" where
  "return_io x = (\<lambda>s. (Inr x, [], s))"

text \<open>\<^verbatim>\<open>const x = await m; f(x)\<close>: a rejection of \<open>m\<close> skips the rest.\<close>

definition bind_io :: "('s, 'a) stripe_io \<Rightarrow> ('a \<Rightarrow> ('s, 'b) stripe_io) \<Rightarrow> ('s, 'b) stripe_io" where
  "bind_io m f = (\<lambda>s.
     case m s of
       (Inl e, tr, s') \<Rightarrow> (Inl e, tr, s')
     | (Inr x, tr, s') \<Rightarrow> (case f x s' of (r, tr', s'') \<Rightarrow> (r, tr @ tr', s'')))"

text \<open>\<^verbatim>\<open>try { m } catch (e) { h(e) }\<close>.\<close>

definition try_catch :: "('s, 'a) stripe_io \<Rightarrow> (js_error \<Rightarrow> ('s, 'a) stripe_io) \<Rightarrow> ('s, 'a) stripe_io" where
  "try_catch m h = (\<lambda>s.
     case m s of
       (Inl e, tr, s') \<Rightarrow> (case h e s' of (r, tr', s'') \<Rightarrow> (r, tr @ tr', s''))
     | (Inr x, tr, s') \<Rightarrow> (Inr x, tr, s'))"

definition stripe_customers_create :: "'s stripe_client \<Rightarrow> ('s, js_object) stripe_io" where
  "stripe_customers_create stripe = (\<lambda>s.
     case customers_create stripe s of (r, s') \<Rightarrow> (r, [(CustomersCreate, r)], s'))"

definition stripe_paymentIntents_create :: "'s stripe_client \<Rightarrow> js_object \<Rightarrow> ('s, js_object) stripe_io" where
  "stripe_paymentIntents_create stripe options = (\<lambda>s.
     case paymentIntents_create stripe options s of
       (r, s') \<Rightarrow> (r, [(PaymentIntentsCreate options, r)], s'))"

definition stripe_setupIntents_create :: "'s stripe_client \<Rightarrow> js_object \<Rightarrow> ('s, js_object) stripe_io" where
  "stripe_setupIntents_create stripe options = (\<lambda>s.
     case setupIntents_create stripe options s of
       (r, s') \<Rightarrow> (r, [(SetupIntentsCreate options, r)], s'))"

section \<open>Responses\<close>

record response =
  status :: nat
  body :: jsval

text \<open>\<^verbatim>\<open>res.send(b)\<close> answers with status 200; \<^verbatim>\<open>res.status(c).send(b)\<close> with \<open>c\<close>.\<close>

definition res_send :: "jsval \<Rightarrow> response" where
  "res_send b = \<lparr>status = 200, body = b\<rparr>"

definition res_status_send :: "nat \<Rightarrow> jsval \<Rightarrow> response" where
  "res_status_send c b = \<lparr>status = c, body = b\<rparr>"

section \<open>The three POST handlers\<close>

text \<open>
  \<^verbatim>\<open>app.post('/create-payment-intent', ...)\<close>. The handler receives \<^verbatim>\<open>req.body\<close> as
  the object that \<^verbatim>\<open>express.json()\<close> parsed.
\<close>

definition create_payment_intent :: "'s stripe_client \<Rightarrow> js_object \<Rightarrow> ('s, response) stripe_io" where
  "create_payment_intent stripe req_body =
     (let amount = get_prop req_body ''amount'';
          currency = get_prop req_body ''currency'';
          saveCard = get_prop req_body ''saveCard''
      in try_catch
           (bind_io (stripe_customers_create stripe) (\<lambda>customer.
              let options =
                    [(''amount'', amount),
                     (''currency'', js_or currency (JStr ''gbp'')),
                     (''customer'', get_prop customer ''id''),
                     (''payment_method_types'', JArr [JStr ''card''])];
                  options =
                    (if to_boolean saveCard
                     then set_prop options ''setup_future_usage'' (JStr ''off_session'')
                     else options)
              in bind_io (stripe_paymentIntents_create stripe options) (\<lambda>paymentIntent.
                   return_io (res_send (JObj
                     [(''clientSecret'', get_prop paymentIntent ''client_secret''),
                      (''customerId'', get_prop customer ''id'')])))))
           (\<lambda>e. return_io (res_status_send 400 (JObj
              [(''error'', JObj [(''message'', JStr (message e))])]))))"

text \<open>\<^verbatim>\<open>app.post('/create-setup-intent', ...)\<close>; it does not read \<^verbatim>\<open>req.body\<close>.\<close>

definition create_setup_intent :: "'s stripe_client \<Rightarrow> js_object \<Rightarrow> ('s, response) stripe_io" where
  "create_setup_intent stripe req_body =
     try_catch
       (bind_io (stripe_customers_create stripe) (\<lambda>customer.
          bind_io (stripe_setupIntents_create stripe
                     [(''customer'', get_prop customer ''id''),
                      (''payment_method_types'', JArr [JStr ''card''])]) (\<lambda>setupIntent.
            return_io (res_send (JObj
              [(''clientSecret'', get_prop setupIntent ''client_secret''),
               (''customerId'', get_prop customer ''id'')])))))
       (\<lambda>e. return_io (res_status_send 400 (JObj
          [(''error'', JObj [(''message'', JStr (message e))])])))"

text \<open>\<^verbatim>\<open>app.post('/create-customer-setup-intent', ...)\<close>; it does not read \<^verbatim>\<open>req.body\<close>.\<close>

definition create_customer_setup_intent :: "'s stripe_client \<Rightarrow> js_object \<Rightarrow> ('s, response) stripe_io" where
  "create_customer_setup_intent stripe req_body =
     try_catch
       (bind_io (stripe_customers_create stripe) (\<lambda>customer.
          bind_io (stripe_setupIntents_create stripe
                     [(''customer'', get_prop customer ''id''),
                      (''payment_method_types'', JArr [JStr ''card''])]) (\<lambda>setupIntent.
            return_io (res_send (JObj
              [(''clientSecret'', get_prop setupIntent ''client_secret''),
               (''customerId'', get_prop customer ''id'')])))))
       (\<lambda>e. return_io (res_status_send 400 (JObj
          [(''error'', JObj [(''message'', JStr (message e))])])))"

section \<open>The page routes and the environment\<close>

text \<open>\<^verbatim>\<open>process.env.NAME\<close> is a string, or \<^verbatim>\<open>undefined\<close> when the variable is not set.\<close>

type_synonym env = "string \<Rightarrow> string option"

definition process_env :: "env \<Rightarrow> string \<Rightarrow> jsval" where
  "process_env env name = (case env name of None \<Rightarrow> JUndefined | Some v \<Rightarrow> JStr v)"

text \<open>\<^verbatim>\<open>res.render(view, locals)\<close>.\<close>

record rendering =
  view :: string
  locals :: js_object

text \<open>\<^verbatim>\<open>app.get('/', ...)\<close> of the plain server.\<close>

definition get_index :: "env \<Rightarrow> rendering" where
  "get_index env =
     \<lparr>view = ''index'',
      locals = [(''publishableKey'', process_env env ''STRIPE_PUBLISHABLE_KEY'')]\<rparr>"

text \<open>\<^verbatim>\<open>app.get('/', ...)\<close> of the connected-account server.\<close>

definition get_index_connected :: "env \<Rightarrow> rendering" where
  "get_index_connected env =
     \<lparr>view = ''index'',
      locals = [(''publishableKey'', process_env env ''STRIPE_PUBLISHABLE_KEY''),
                (''connectedAccountId'', process_env env ''STRIPE_CONNECTED_ACCOUNT_ID'')]\<rparr>"

text \<open>
  Modelled from the spec: the \<^verbatim>\<open>GET /config\<close> route of the connected-account server. The
  server sources at hand define no such route (only the README documents it and the
  external-frontend guide calls it); the specification gives its success response as
  \<^verbatim>\<open>{publishableKey, connectedAccountId}\<close>, the two values that the page route of that
  server reads from the environment.
\<close>

definition get_config :: "env \<Rightarrow> response" where
  "get_config env =
     res_send (JObj
       [(''publishableKey'', process_env env ''STRIPE_PUBLISHABLE_KEY''),
        (''connectedAccountId'', process_env env ''STRIPE_CONNECTED_ACCOUNT_ID'')])"

section \<open>Vocabulary for the properties\<close>

text \<open>Carrying out one recorded call on the client.\<close>

fun perform :: "'s stripe_client \<Rightarrow> stripe_call \<Rightarrow> 's \<Rightarrow> (js_error + js_object) \<times> 's" where
  "perform stripe CustomersCreate = customers_create stripe"
| "perform stripe (PaymentIntentsCreate options) = paymentIntents_create stripe options"
| "perform stripe (SetupIntentsCreate options) = setupIntents_create stripe options"

text \<open>
  Replaying a trace on the client: the state the processor is left in when exactly the
  recorded calls are made, each with the recorded outcome.
\<close>

fun replay :: "'s stripe_client \<Rightarrow> stripe_event list \<Rightarrow> 's \<Rightarrow> 's option" where
  "replay stripe [] s = Some s"
| "replay stripe ((call, r) # tr) s =
     (case perform stripe call s of (r', s') \<Rightarrow> if r' = r then replay stripe tr s' else None)"

text \<open>The error answer for a thrown \<open>e\<close>, and the success answer.\<close>

abbreviation error_response :: "js_error \<Rightarrow> response" where
  "error_response e \<equiv>
     \<lparr>status = 400, body = JObj [(''error'', JObj [(''message'', JStr (message e))])]\<rparr>"

abbreviation ok_response :: "jsval \<Rightarrow> jsval \<Rightarrow> response" where
  "ok_response secret cid \<equiv>
     \<lparr>status = 200, body = JObj [(''clientSecret'', secret), (''customerId'', cid)]\<rparr>"

text \<open>The option objects, written out property by property.\<close>

abbreviation setup_options :: "js_object \<Rightarrow> js_object" where
  "setup_options customer \<equiv>
     [(''customer'', get_prop customer ''id''),
      (''payment_method_types'', JArr [JStr ''card''])]"

abbreviation payment_options :: "js_object \<Rightarrow> js_object \<Rightarrow> js_object" where
  "payment_options req_body customer \<equiv>
     [(''amount'', get_prop req_body ''amount''),
      (''currency'',
         if to_boolean (get_prop req_body ''currency'')
         then get_prop req_body ''currency'' else JStr ''gbp''),
      (''customer'', get_prop customer ''id''),
      (''payment_method_types'', JArr [JStr ''card''])]
     @ (if to_boolean (get_prop req_body ''saveCard'')
        then [(''setup_future_usage'', JStr ''off_session'')] else [])"

text \<open>
  A test double for the client, as a test of the server would stub it: customer creation
  and intent creation each have a fixed outcome, and the processor's state is the number
  of customers it holds.
\<close>

definition fake_stripe :: "(js_error + js_object) \<Rightarrow> (js_error + js_object) \<Rightarrow> nat stripe_client" where
  "fake_stripe customer_outcome intent_outcome =
     \<lparr>customers_create =
        (\<lambda>n. (customer_outcome, case customer_outcome of Inl e \<Rightarrow> n | Inr c \<Rightarrow> Suc n)),
      paymentIntents_create = (\<lambda>options n. (intent_outcome, n)),
      setupIntents_create = (\<lambda>options n. (intent_outcome, n))\<rparr>"

text \<open>
  Fixtures: a customer and an intent as the processor returns them, and the body that
  \<^verbatim>\<open>public/client.js\<close> posts in pay-now mode.
\<close>

abbreviation customer_1 :: js_object where
  "customer_1 \<equiv> [(''id'', JStr ''cus_1'')]"

abbreviation intent_1 :: js_object where
  "intent_1 \<equiv> [(''client_secret'', JStr ''pi_1_secret'')]"

abbreviation pay_now_body :: "jsval \<Rightarrow> js_object" where
  "pay_now_body saveCard \<equiv>
     [(''amount'', JNum (Finite 500)), (''currency'', JStr ''gbp''), (''saveCard'', saveCard)]"

section \<open>What each handler does, case by case\<close>

lemmas io_defs = bind_io_def try_catch_def return_io_def stripe_customers_create_def
  stripe_paymentIntents_create_def stripe_setupIntents_create_def res_send_def
  res_status_send_def

lemma set_prop_future_usage:
  "set_prop [(''amount'', a), (''currency'', c), (''customer'', i),
             (''payment_method_types'', p)] ''setup_future_usage'' v =
   [(''amount'', a), (''currency'', c), (''customer'', i),
    (''payment_method_types'', p), (''setup_future_usage'', v)]"
  by simp

lemma create_payment_intent_customer_fails:
  assumes "customers_create stripe s = (Inl e, s1)"
  shows "create_payment_intent stripe b s =
           (Inr (error_response e), [(CustomersCreate, Inl e)], s1)"
  using assms by (simp add: create_payment_intent_def io_defs Let_def)

lemma create_payment_intent_intent_fails:
  assumes "customers_create stripe s = (Inr customer, s1)"
    and "paymentIntents_create stripe (payment_options b customer) s1 = (Inl e, s2)"
  shows "create_payment_intent stripe b s =
           (Inr (error_response e),
            [(CustomersCreate, Inr customer),
             (PaymentIntentsCreate (payment_options b customer), Inl e)], s2)"
  using assms
  unfolding create_payment_intent_def Let_def set_prop_future_usage js_or_def
  by (cases "to_boolean (get_prop b ''saveCard'')") (simp_all add: io_defs)

lemma create_payment_intent_succeeds:
  assumes "customers_create stripe s = (Inr customer, s1)"
    and "paymentIntents_create stripe (payment_options b customer) s1 = (Inr paymentIntent, s2)"
  shows "create_payment_intent stripe b s =
           (Inr (ok_response (get_prop paymentIntent ''client_secret'')
                             (get_prop customer ''id'')),
            [(CustomersCreate, Inr customer),
             (PaymentIntentsCreate (payment_options b customer), Inr paymentIntent)], s2)"
  using assms
  unfolding create_payment_intent_def Let_def set_prop_future_usage js_or_def
  by (cases "to_boolean (get_prop b ''saveCard'')") (simp_all add: io_defs)

lemma create_setup_intent_customer_fails:
  assumes "customers_create stripe s = (Inl e, s1)"
  shows "create_setup_intent stripe b s =
           (Inr (error_response e), [(CustomersCreate, Inl e)], s1)"
  using assms by (simp add: create_setup_intent_def io_defs)

lemma create_setup_intent_intent_fails:
  assumes "customers_create stripe s = (Inr customer, s1)"
    and "setupIntents_create stripe (setup_options customer) s1 = (Inl e, s2)"
  shows "create_setup_intent stripe b s =
           (Inr (error_response e),
            [(CustomersCreate, Inr customer),
             (SetupIntentsCreate (setup_options customer), Inl e)], s2)"
  using assms by (simp add: create_setup_intent_def io_defs)

lemma create_setup_intent_succeeds:
  assumes "customers_create stripe s = (Inr customer, s1)"
    and "setupIntents_create stripe (setup_options customer) s1 = (Inr setupIntent, s2)"
  shows "create_setup_intent stripe b s =
           (Inr (ok_response (get_prop setupIntent ''client_secret'')
                             (get_prop customer ''id'')),
            [(CustomersCreate, Inr customer),
             (SetupIntentsCreate (setup_options customer), Inr setupIntent)], s2)"
  using assms by (simp add: create_setup_intent_def io_defs)

lemma same_setup_handlers:
  "create_customer_setup_intent stripe b s = create_setup_intent stripe b' s"
  by (simp add: create_customer_setup_intent_def create_setup_intent_def)



lemma create_payment_intent_shapes:
  obtains
    (customer_fails) e s1 where
      "customers_create stripe s = (Inl e, s1)"
      "create_payment_intent stripe b s =
         (Inr (error_response e), [(CustomersCreate, Inl e)], s1)"
  | (intent_fails) customer s1 e s2 where
      "customers_create stripe s = (Inr customer, s1)"
      "paymentIntents_create stripe (payment_options b customer) s1 = (Inl e, s2)"
      "create_payment_intent stripe b s =
         (Inr (error_response e),
          [(CustomersCreate, Inr customer),
           (PaymentIntentsCreate (payment_options b customer), Inl e)], s2)"
  | (succeeds) customer s1 paymentIntent s2 where
      "customers_create stripe s = (Inr customer, s1)"
      "paymentIntents_create stripe (payment_options b customer) s1 = (Inr paymentIntent, s2)"
      "create_payment_intent stripe b s =
         (Inr (ok_response (get_prop paymentIntent ''client_secret'')
                           (get_prop customer ''id'')),
          [(CustomersCreate, Inr customer),
           (PaymentIntentsCreate (payment_options b customer), Inr paymentIntent)], s2)"
proof (cases "customers_create stripe s")
  case (Pair r s1)
  show ?thesis
  proof (cases r)
    case (Inl e)
    with Pair have c: "customers_create stripe s = (Inl e, s1)" by simp
    from customer_fails [OF c create_payment_intent_customer_fails [OF c]] show ?thesis .
  next
    case (Inr customer)
    with Pair have c: "customers_create stripe s = (Inr customer, s1)" by simp
    obtain r2 s2 where
      p: "paymentIntents_create stripe (payment_options b customer) s1 = (r2, s2)"
      by (cases "paymentIntents_create stripe (payment_options b customer) s1")
    show ?thesis
    proof (cases r2)
      case (Inl e)
      with p have p': "paymentIntents_create stripe (payment_options b customer) s1 = (Inl e, s2)"
        by simp
      from intent_fails [OF c p' create_payment_intent_intent_fails [OF c p']] show ?thesis .
    next
      case (Inr paymentIntent)
      with p have p': "paymentIntents_create stripe (payment_options b customer) s1
                         = (Inr paymentIntent, s2)"
        by simp
      from succeeds [OF c p' create_payment_intent_succeeds [OF c p']] show ?thesis .
    qed
  qed
qed

lemma create_setup_intent_shapes:
  obtains
    (customer_fails) e s1 where
      "customers_create stripe s = (Inl e, s1)"
      "create_setup_intent stripe b s =
         (Inr (error_response e), [(CustomersCreate, Inl e)], s1)"
  | (intent_fails) customer s1 e s2 where
      "customers_create stripe s = (Inr customer, s1)"
      "setupIntents_create stripe (setup_options customer) s1 = (Inl e, s2)"
      "create_setup_intent stripe b s =
         (Inr (error_response e),
          [(CustomersCreate, Inr customer),
           (SetupIntentsCreate (setup_options customer), Inl e)], s2)"
  | (succeeds) customer s1 setupIntent s2 where
      "customers_create stripe s = (Inr customer, s1)"
      "setupIntents_create stripe (setup_options customer) s1 = (Inr setupIntent, s2)"
      "create_setup_intent stripe b s =
         (Inr (ok_response (get_prop setupIntent ''client_secret'')
                           (get_prop customer ''id'')),
          [(CustomersCreate, Inr customer),
           (SetupIntentsCreate (setup_options customer), Inr setupIntent)], s2)"
proof (cases "customers_create stripe s")
  case (Pair r s1)
  show ?thesis
  proof (cases r)
    case (Inl e)
    with Pair have c: "customers_create stripe s = (Inl e, s1)" by simp
    from customer_fails [OF c create_setup_intent_customer_fails [OF c]] show ?thesis .
  next
    case (Inr customer)
    with Pair have c: "customers_create stripe s = (Inr customer, s1)" by simp
    obtain r2 s2 where
      p: "setupIntents_create stripe (setup_options customer) s1 = (r2, s2)"
      by (cases "setupIntents_create stripe (setup_options customer) s1")
    show ?thesis
    proof (cases r2)
      case (Inl e)
      with p have p': "setupIntents_create stripe (setup_options customer) s1 = (Inl e, s2)"
        by simp
      from intent_fails [OF c p' create_setup_intent_intent_fails [OF c p']] show ?thesis .
    next
      case (Inr setupIntent)
      with p have p': "setupIntents_create stripe (setup_options customer) s1
                         = (Inr setupIntent, s2)"
        by simp
      from succeeds [OF c p' create_setup_intent_succeeds [OF c p']] show ?thesis .
    qed
  qed
qed

section \<open>The options of a payment intent\<close>

lemma payment_call_options:
  assumes "(PaymentIntentsCreate options, r) \<in> set (io_trace (create_payment_intent stripe b s))"
  shows "\<exists>customer. options = payment_options b customer"
  using assms
  by (cases rule: create_payment_intent_shapes [of stripe s b]) (auto simp: io_trace_def)

lemma payment_options_future_usage:
  "has_prop (payment_options b customer) ''setup_future_usage''
     = to_boolean (get_prop b ''saveCard'')"
  "to_boolean (get_prop b ''saveCard'') \<Longrightarrow>
     get_prop (payment_options b customer) ''setup_future_usage'' = JStr ''off_session''"
  by (simp_all add: has_prop_def get_prop_def)

lemma payment_options_currency:
  "get_prop (payment_options b customer) ''currency'' =
     (if to_boolean (get_prop b ''currency'') then get_prop b ''currency'' else JStr ''gbp'')"
  by (simp add: get_prop_def)

lemma payment_options_amount:
  "get_prop (payment_options b customer) ''amount'' = get_prop b ''amount''"
  "has_prop (payment_options b customer) ''amount''"
  by (simp_all add: get_prop_def has_prop_def)

lemma absent_prop: "\<not> has_prop obj k \<Longrightarrow> get_prop obj k = JUndefined"
  by (simp add: has_prop_def get_prop_def)

section \<open>Runs against the test double\<close>

lemma fake_customers_create_ok:
  "customers_create (fake_stripe (Inr c) i) n = (Inr c, Suc n)"
  by (simp add: fake_stripe_def)

lemma fake_customers_create_fails:
  "customers_create (fake_stripe (Inl e) i) n = (Inl e, n)"
  by (simp add: fake_stripe_def)

lemma fake_paymentIntents_create:
  "paymentIntents_create (fake_stripe c i) options n = (i, n)"
  by (simp add: fake_stripe_def)

lemma fake_setupIntents_create:
  "setupIntents_create (fake_stripe c i) options n = (i, n)"
  by (simp add: fake_stripe_def)

lemma fake_pay_now_succeeds:
  "create_payment_intent (fake_stripe (Inr c) (Inr i)) b n =
     (Inr (ok_response (get_prop i ''client_secret'') (get_prop c ''id'')),
      [(CustomersCreate, Inr c), (PaymentIntentsCreate (payment_options b c), Inr i)], Suc n)"
  by (rule create_payment_intent_succeeds
        [OF fake_customers_create_ok fake_paymentIntents_create])

lemma fake_pay_now_intent_fails:
  "create_payment_intent (fake_stripe (Inr c) (Inl e)) b n =
     (Inr (error_response e),
      [(CustomersCreate, Inr c), (PaymentIntentsCreate (payment_options b c), Inl e)], Suc n)"
  by (rule create_payment_intent_intent_fails
        [OF fake_customers_create_ok fake_paymentIntents_create])

lemma fake_perform_intent:
  "call \<noteq> CustomersCreate \<Longrightarrow> perform (fake_stripe c i) call n = (i, n)"
  by (cases call) (simp_all add: fake_stripe_def)

section \<open>Saving the card\<close>

text \<open>
  Claim C1. Whenever \<^verbatim>\<open>POST /create-payment-intent\<close> passes options to
  \<^verbatim>\<open>stripe.paymentIntents.create\<close>: if the request's \<^verbatim>\<open>saveCard\<close> is \<^verbatim>\<open>true\<close>, the options
  carry \<^verbatim>\<open>setup_future_usage = 'off_session'\<close>; if \<^verbatim>\<open>saveCard\<close> is absent or \<^verbatim>\<open>false\<close>,
  the options have no \<^verbatim>\<open>setup_future_usage\<close> property at all.
\<close>

theorem save_card_sets_future_usage:
  assumes "(PaymentIntentsCreate options, r)
             \<in> set (io_trace (create_payment_intent stripe req_body s))"
  shows "(get_prop req_body ''saveCard'' = JBool True \<longrightarrow>
            get_prop options ''setup_future_usage'' = JStr ''off_session'')
       \<and> (\<not> has_prop req_body ''saveCard'' \<or> get_prop req_body ''saveCard'' = JBool False \<longrightarrow>
            \<not> has_prop options ''setup_future_usage'')"
proof -
  from payment_call_options [OF assms] obtain customer
    where o: "options = payment_options req_body customer" ..
  show ?thesis
    unfolding o using payment_options_future_usage [of req_body customer]
    by (auto dest: absent_prop)
qed

theorem save_card_sets_future_usage_witness:
  "(PaymentIntentsCreate (payment_options (pay_now_body (JBool True)) customer_1), Inr intent_1)
     \<in> set (io_trace (create_payment_intent (fake_stripe (Inr customer_1) (Inr intent_1))
                        (pay_now_body (JBool True)) 0))
   \<and> get_prop (pay_now_body (JBool True)) ''saveCard'' = JBool True
   \<and> get_prop (payment_options (pay_now_body (JBool True)) customer_1) ''setup_future_usage''
       = JStr ''off_session''
   \<and> (PaymentIntentsCreate (payment_options (pay_now_body (JBool False)) customer_1), Inr intent_1)
     \<in> set (io_trace (create_payment_intent (fake_stripe (Inr customer_1) (Inr intent_1))
                        (pay_now_body (JBool False)) 0))
   \<and> get_prop (pay_now_body (JBool False)) ''saveCard'' = JBool False
   \<and> \<not> has_prop (payment_options (pay_now_body (JBool False)) customer_1) ''setup_future_usage''"
proof -
  let ?stripe = "fake_stripe (Inr customer_1) (Inr intent_1)"
  have m: "(PaymentIntentsCreate (payment_options (pay_now_body v) customer_1), Inr intent_1)
             \<in> set (io_trace (create_payment_intent ?stripe (pay_now_body v) 0))" for v
    unfolding fake_pay_now_succeeds io_trace_def by simp
  have g: "get_prop (pay_now_body v) ''saveCard'' = v" for v
    by (simp add: get_prop_def)
  from save_card_sets_future_usage [OF m [of "JBool True"]]
       save_card_sets_future_usage [OF m [of "JBool False"]] g m
  show ?thesis by blast
qed

section \<open>After the customer has been created\<close>

lemma payment_after_customer:
  assumes c: "customers_create stripe s = (Inr customer, s1)"
  shows "\<exists>r s2. paymentIntents_create stripe (payment_options b customer) s1 = (r, s2)
           \<and> io_trace (create_payment_intent stripe b s) =
               [(CustomersCreate, Inr customer),
                (PaymentIntentsCreate (payment_options b customer), r)]
           \<and> io_state (create_payment_intent stripe b s) = s2
           \<and> (\<forall>e. r = Inl e \<longrightarrow>
                 io_result (create_payment_intent stripe b s) = Inr (error_response e))"
proof (cases "paymentIntents_create stripe (payment_options b customer) s1")
  case (Pair r s2)
  show ?thesis
  proof (cases r)
    case (Inl e)
    with Pair have p: "paymentIntents_create stripe (payment_options b customer) s1 = (Inl e, s2)"
      by simp
    show ?thesis
      unfolding create_payment_intent_intent_fails [OF c p] p io_trace_def io_state_def io_result_def
      by simp
  next
    case (Inr paymentIntent)
    with Pair have p: "paymentIntents_create stripe (payment_options b customer) s1
                         = (Inr paymentIntent, s2)"
      by simp
    show ?thesis
      unfolding create_payment_intent_succeeds [OF c p] p io_trace_def io_state_def io_result_def
      by simp
  qed
qed

lemma setup_after_customer:
  assumes c: "customers_create stripe s = (Inr customer, s1)"
  shows "\<exists>r s2. setupIntents_create stripe (setup_options customer) s1 = (r, s2)
           \<and> io_trace (create_setup_intent stripe b s) =
               [(CustomersCreate, Inr customer),
                (SetupIntentsCreate (setup_options customer), r)]
           \<and> io_state (create_setup_intent stripe b s) = s2
           \<and> (\<forall>e. r = Inl e \<longrightarrow>
                 io_result (create_setup_intent stripe b s) = Inr (error_response e))"
proof (cases "setupIntents_create stripe (setup_options customer) s1")
  case (Pair r s2)
  show ?thesis
  proof (cases r)
    case (Inl e)
    with Pair have p: "setupIntents_create stripe (setup_options customer) s1 = (Inl e, s2)"
      by simp
    show ?thesis
      unfolding create_setup_intent_intent_fails [OF c p] p io_trace_def io_state_def io_result_def
      by simp
  next
    case (Inr setupIntent)
    with Pair have p: "setupIntents_create stripe (setup_options customer) s1
                         = (Inr setupIntent, s2)"
      by simp
    show ?thesis
      unfolding create_setup_intent_succeeds [OF c p] p io_trace_def io_state_def io_result_def
      by simp
  qed
qed

lemma payment_second_call:
  assumes c: "customers_create stripe s = (Inr customer, s1)"
  shows "\<exists>call r s2. perform stripe call s1 = (r, s2) \<and> call \<noteq> CustomersCreate
           \<and> io_trace (create_payment_intent stripe b s) = [(CustomersCreate, Inr customer), (call, r)]
           \<and> io_state (create_payment_intent stripe b s) = s2
           \<and> (\<forall>e. r = Inl e \<longrightarrow>
                 io_result (create_payment_intent stripe b s) = Inr (error_response e))"
proof -
  from payment_after_customer [OF c, of b] obtain r s2 where
    "perform stripe (PaymentIntentsCreate (payment_options b customer)) s1 = (r, s2)"
    "io_trace (create_payment_intent stripe b s) =
       [(CustomersCreate, Inr customer), (PaymentIntentsCreate (payment_options b customer), r)]"
    "io_state (create_payment_intent stripe b s) = s2"
    "\<forall>e. r = Inl e \<longrightarrow> io_result (create_payment_intent stripe b s) = Inr (error_response e)"
    by auto
  then show ?thesis by blast
qed

lemma setup_second_call:
  assumes c: "customers_create stripe s = (Inr customer, s1)"
  shows "\<exists>call r s2. perform stripe call s1 = (r, s2) \<and> call \<noteq> CustomersCreate
           \<and> io_trace (create_setup_intent stripe b s) = [(CustomersCreate, Inr customer), (call, r)]
           \<and> io_state (create_setup_intent stripe b s) = s2
           \<and> (\<forall>e. r = Inl e \<longrightarrow>
                 io_result (create_setup_intent stripe b s) = Inr (error_response e))"
proof -
  from setup_after_customer [OF c, of b] obtain r s2 where
    "perform stripe (SetupIntentsCreate (setup_options customer)) s1 = (r, s2)"
    "io_trace (create_setup_intent stripe b s) =
       [(CustomersCreate, Inr customer), (SetupIntentsCreate (setup_options customer), r)]"
    "io_state (create_setup_intent stripe b s) = s2"
    "\<forall>e. r = Inl e \<longrightarrow> io_result (create_setup_intent stripe b s) = Inr (error_response e)"
    by auto
  then show ?thesis by blast
qed

text \<open>The three handlers, as a choice.\<close>

lemma handler_cases:
  assumes "h = create_payment_intent stripe b \<or> h = create_setup_intent stripe b
             \<or> h = create_customer_setup_intent stripe b"
  shows "h s = create_payment_intent stripe b s \<or> h s = create_setup_intent stripe b s"
  using assms same_setup_handlers [of stripe b s b] by auto

lemma handler_customer_fails:
  assumes h: "h = create_payment_intent stripe b \<or> h = create_setup_intent stripe b
             \<or> h = create_customer_setup_intent stripe b"
    and c: "customers_create stripe s = (Inl e, s1)"
  shows "h s = (Inr (error_response e), [(CustomersCreate, Inl e)], s1)"
  using handler_cases [OF h, of s]
  by (auto simp: create_payment_intent_customer_fails [OF c]
                 create_setup_intent_customer_fails [OF c])

lemma handler_second_call:
  assumes h: "h = create_payment_intent stripe b \<or> h = create_setup_intent stripe b
             \<or> h = create_customer_setup_intent stripe b"
    and c: "customers_create stripe s = (Inr customer, s1)"
  shows "\<exists>call r s2. perform stripe call s1 = (r, s2) \<and> call \<noteq> CustomersCreate
           \<and> io_trace (h s) = [(CustomersCreate, Inr customer), (call, r)]
           \<and> io_state (h s) = s2
           \<and> (\<forall>e. r = Inl e \<longrightarrow> io_result (h s) = Inr (error_response e))"
  using handler_cases [OF h, of s]
proof
  assume payment: "h s = create_payment_intent stripe b s"
  show ?thesis unfolding payment by (rule payment_second_call [OF c])
next
  assume setup_case: "h s = create_setup_intent stripe b s"
  show ?thesis unfolding setup_case by (rule setup_second_call [OF c])
qed

section \<open>Failures of the processor\<close>

text \<open>
  Claim C2. For each of the three POST handlers: if \<^verbatim>\<open>stripe.customers.create\<close> throws \<open>e\<close>,
  the handler answers with status 400 and body \<^verbatim>\<open>{error: {message: e.message}}\<close>, having
  made that one call and no other. If the customer is created, the handler makes exactly
  one more call on the client, an intent creation, and if that call throws \<open>e\<close> the answer
  is again status 400 with \<open>e\<close>'s message. No call is made twice.
\<close>

theorem processor_failure_gives_400:
  assumes "h = create_payment_intent stripe req_body \<or> h = create_setup_intent stripe req_body
             \<or> h = create_customer_setup_intent stripe req_body"
  shows "(\<forall>e s1. customers_create stripe s = (Inl e, s1) \<longrightarrow>
            h s = (Inr \<lparr>status = 400,
                        body = JObj [(''error'', JObj [(''message'', JStr (message e))])]\<rparr>,
                   [(CustomersCreate, Inl e)], s1))
       \<and> (\<forall>customer s1. customers_create stripe s = (Inr customer, s1) \<longrightarrow>
            (\<exists>call r s2. perform stripe call s1 = (r, s2) \<and> call \<noteq> CustomersCreate
               \<and> io_trace (h s) = [(CustomersCreate, Inr customer), (call, r)]
               \<and> io_state (h s) = s2
               \<and> (\<forall>e. r = Inl e \<longrightarrow>
                     io_result (h s) =
                       Inr \<lparr>status = 400,
                            body = JObj [(''error'', JObj [(''message'', JStr (message e))])]\<rparr>)))"
  using handler_customer_fails [OF assms] handler_second_call [OF assms] by blast

theorem processor_failure_gives_400_witness:
  "create_payment_intent (fake_stripe (Inl (Error ''Rate limit exceeded'')) (Inr intent_1))
       (pay_now_body (JBool False)) 0
     = (Inr \<lparr>status = 400,
             body = JObj [(''error'', JObj [(''message'', JStr ''Rate limit exceeded'')])]\<rparr>,
        [(CustomersCreate, Inl (Error ''Rate limit exceeded''))], 0)
   \<and> io_result (create_setup_intent
         (fake_stripe (Inr customer_1) (Inl (Error ''Invalid API Key provided''))) [] 0)
     = Inr \<lparr>status = 400,
            body = JObj [(''error'', JObj [(''message'', JStr ''Invalid API Key provided'')])]\<rparr>
   \<and> io_result (create_customer_setup_intent
         (fake_stripe (Inr customer_1) (Inl (Error ''Invalid API Key provided''))) [] 0)
     = Inr \<lparr>status = 400,
            body = JObj [(''error'', JObj [(''message'', JStr ''Invalid API Key provided'')])]\<rparr>"
proof -
  let ?down = "fake_stripe (Inl (Error ''Rate limit exceeded'')) (Inr intent_1)"
  let ?bad_key = "fake_stripe (Inr customer_1) (Inl (Error ''Invalid API Key provided''))"
  have 1: "customers_create ?down 0 = (Inl (Error ''Rate limit exceeded''), 0)"
    by (rule fake_customers_create_fails)
  have 2: "customers_create ?bad_key 0 = (Inr customer_1, Suc 0)"
    by (rule fake_customers_create_ok)
  from processor_failure_gives_400
         [of "create_payment_intent ?down (pay_now_body (JBool False))" ?down
             "pay_now_body (JBool False)" 0] 1
  have a: "create_payment_intent ?down (pay_now_body (JBool False)) 0
             = (Inr (error_response (Error ''Rate limit exceeded'')),
                [(CustomersCreate, Inl (Error ''Rate limit exceeded''))], 0)"
    by blast
  from processor_failure_gives_400 [of "create_setup_intent ?bad_key []" ?bad_key "[]" 0] 2
  obtain call r s2 where
    p: "perform ?bad_key call (Suc 0) = (r, s2)" and n: "call \<noteq> CustomersCreate" and
    k: "\<forall>e. r = Inl e \<longrightarrow> io_result (create_setup_intent ?bad_key [] 0) = Inr (error_response e)"
    by blast
  from p n have "r = Inl (Error ''Invalid API Key provided'')"
    by (simp add: fake_perform_intent)
  with k have b: "io_result (create_setup_intent ?bad_key [] 0)
                  = Inr (error_response (Error ''Invalid API Key provided''))"
    by blast
  from processor_failure_gives_400
         [of "create_customer_setup_intent ?bad_key []" ?bad_key "[]" 0] 2
  obtain call r s2 where
    p: "perform ?bad_key call (Suc 0) = (r, s2)" and n: "call \<noteq> CustomersCreate" and
    k: "\<forall>e. r = Inl e \<longrightarrow>
       io_result (create_customer_setup_intent ?bad_key [] 0) = Inr (error_response e)"
    by blast
  from p n have "r = Inl (Error ''Invalid API Key provided'')"
    by (simp add: fake_perform_intent)
  with k have c: "io_result (create_customer_setup_intent ?bad_key [] 0)
                  = Inr (error_response (Error ''Invalid API Key provided''))"
    by blast
  from a b c show ?thesis by simp
qed

section \<open>The pay-now handler when both calls succeed\<close>

text \<open>
  Claim C3. When customer creation succeeds and the payment-intent creation succeeds,
  \<^verbatim>\<open>POST /create-payment-intent\<close> has made exactly these two calls in this order, the second
  with options \<^verbatim>\<open>{amount, currency, customer: customer.id, payment_method_types: ['card']}\<close>
  plus \<^verbatim>\<open>setup_future_usage\<close> when \<^verbatim>\<open>saveCard\<close> is set, and it answers 200 with
  \<^verbatim>\<open>clientSecret\<close> the intent's \<^verbatim>\<open>client_secret\<close> and \<^verbatim>\<open>customerId\<close> the customer's \<^verbatim>\<open>id\<close>.
  The processor returns a non-empty id and a non-empty secret on success; the handler
  passes both on as they are, so both fields of the answer are non-empty. The amount is
  arbitrary, so this holds for every positive integer amount.
\<close>

theorem pay_now_success:
  assumes "customers_create stripe s = (Inr customer, s1)"
    and "options =
           [(''amount'', get_prop req_body ''amount''),
            (''currency'',
               if to_boolean (get_prop req_body ''currency'')
               then get_prop req_body ''currency'' else JStr ''gbp''),
            (''customer'', get_prop customer ''id''),
            (''payment_method_types'', JArr [JStr ''card''])]
           @ (if to_boolean (get_prop req_body ''saveCard'')
              then [(''setup_future_usage'', JStr ''off_session'')] else [])"
    and "paymentIntents_create stripe options s1 = (Inr paymentIntent, s2)"
    and "get_prop customer ''id'' = JStr cid" and "cid \<noteq> []"
    and "get_prop paymentIntent ''client_secret'' = JStr secret" and "secret \<noteq> []"
  shows "create_payment_intent stripe req_body s =
           (Inr \<lparr>status = 200,
                  body = JObj [(''clientSecret'', JStr secret), (''customerId'', JStr cid)]\<rparr>,
            [(CustomersCreate, Inr customer), (PaymentIntentsCreate options, Inr paymentIntent)],
            s2)"
  using create_payment_intent_succeeds [of stripe s customer s1 req_body paymentIntent s2] assms
  by simp

theorem pay_now_success_witness:
  "create_payment_intent (fake_stripe (Inr customer_1) (Inr intent_1)) (pay_now_body (JBool True)) 0
     = (Inr \<lparr>status = 200,
             body = JObj [(''clientSecret'', JStr ''pi_1_secret''),
                          (''customerId'', JStr ''cus_1'')]\<rparr>,
        [(CustomersCreate, Inr customer_1),
         (PaymentIntentsCreate
            [(''amount'', JNum (Finite 500)), (''currency'', JStr ''gbp''),
             (''customer'', JStr ''cus_1''), (''payment_method_types'', JArr [JStr ''card'']),
             (''setup_future_usage'', JStr ''off_session'')],
          Inr intent_1)],
        Suc 0)"
proof -
  let ?stripe = "fake_stripe (Inr customer_1) (Inr intent_1)"
  let ?options = "[(''amount'', JNum (Finite 500)), (''currency'', JStr ''gbp''),
             (''customer'', JStr ''cus_1''), (''payment_method_types'', JArr [JStr ''card'']),
             (''setup_future_usage'', JStr ''off_session'')]"
  have 1: "customers_create ?stripe 0 = (Inr customer_1, Suc 0)"
    by (rule fake_customers_create_ok)
  have 2: "?options = payment_options (pay_now_body (JBool True)) customer_1"
    by (simp add: get_prop_def)
  have 3: "paymentIntents_create ?stripe ?options (Suc 0) = (Inr intent_1, Suc 0)"
    by (rule fake_paymentIntents_create)
  have 4: "get_prop customer_1 ''id'' = JStr ''cus_1''" "''cus_1'' \<noteq> []"
    by (simp_all add: get_prop_def)
  have 5: "get_prop intent_1 ''client_secret'' = JStr ''pi_1_secret''" "''pi_1_secret'' \<noteq> []"
    by (simp_all add: get_prop_def)
  from pay_now_success [OF 1 2 3 4 5] show ?thesis .
qed

section \<open>The two setup endpoints\<close>

text \<open>
  Claim C4. For every request body and every behaviour of the processor,
  \<^verbatim>\<open>POST /create-setup-intent\<close> and \<^verbatim>\<open>POST /create-customer-setup-intent\<close> have the same
  outcome: the same answer, the same calls on the client and the same final processor
  state. Both create a customer and then a setup intent with options
  \<^verbatim>\<open>{customer: customer.id, payment_method_types: ['card']}\<close>, answer 200 with
  \<^verbatim>\<open>{clientSecret, customerId}\<close> on success and 400 with the thrown message on failure.
\<close>

theorem setup_endpoints_identical:
  "create_setup_intent stripe req_body s = create_customer_setup_intent stripe req_body s
   \<and> create_setup_intent stripe req_body s =
       (case customers_create stripe s of
          (Inl e, s1) \<Rightarrow>
            (Inr \<lparr>status = 400,
                   body = JObj [(''error'', JObj [(''message'', JStr (message e))])]\<rparr>,
             [(CustomersCreate, Inl e)], s1)
        | (Inr customer, s1) \<Rightarrow>
            (case setupIntents_create stripe
                    [(''customer'', get_prop customer ''id''),
                     (''payment_method_types'', JArr [JStr ''card''])] s1 of
               (Inl e, s2) \<Rightarrow>
                 (Inr \<lparr>status = 400,
                        body = JObj [(''error'', JObj [(''message'', JStr (message e))])]\<rparr>,
                  [(CustomersCreate, Inr customer),
                   (SetupIntentsCreate
                      [(''customer'', get_prop customer ''id''),
                       (''payment_method_types'', JArr [JStr ''card''])], Inl e)], s2)
             | (Inr setupIntent, s2) \<Rightarrow>
                 (Inr \<lparr>status = 200,
                        body = JObj [(''clientSecret'', get_prop setupIntent ''client_secret''),
                                     (''customerId'', get_prop customer ''id'')]\<rparr>,
                  [(CustomersCreate, Inr customer),
                   (SetupIntentsCreate
                      [(''customer'', get_prop customer ''id''),
                       (''payment_method_types'', JArr [JStr ''card''])], Inr setupIntent)], s2)))"
proof
  show "create_setup_intent stripe req_body s = create_customer_setup_intent stripe req_body s"
    by (rule same_setup_handlers [symmetric])
  show "create_setup_intent stripe req_body s =
       (case customers_create stripe s of
          (Inl e, s1) \<Rightarrow> (Inr (error_response e), [(CustomersCreate, Inl e)], s1)
        | (Inr customer, s1) \<Rightarrow>
            (case setupIntents_create stripe (setup_options customer) s1 of
               (Inl e, s2) \<Rightarrow>
                 (Inr (error_response e),
                  [(CustomersCreate, Inr customer),
                   (SetupIntentsCreate (setup_options customer), Inl e)], s2)
             | (Inr setupIntent, s2) \<Rightarrow>
                 (Inr (ok_response (get_prop setupIntent ''client_secret'')
                                   (get_prop customer ''id'')),
                  [(CustomersCreate, Inr customer),
                   (SetupIntentsCreate (setup_options customer), Inr setupIntent)], s2)))"
    by (cases rule: create_setup_intent_shapes [of stripe s req_body]) simp_all
qed

text \<open>
  Claim C10. The two setup endpoints do not depend on the request body: for any two
  bodies and the same processor, each makes the same calls with the same arguments and
  gives the same answer.
\<close>

theorem setup_endpoints_ignore_body:
  "create_setup_intent stripe body1 s = create_setup_intent stripe body2 s
   \<and> create_customer_setup_intent stripe body1 s = create_customer_setup_intent stripe body2 s"
  by (simp add: create_setup_intent_def create_customer_setup_intent_def)

section \<open>The configuration route\<close>

text \<open>
  Claim C5. In the connected-account server, \<^verbatim>\<open>GET /config\<close> answers with status 200 and
  the body \<^verbatim>\<open>{publishableKey, connectedAccountId}\<close>, the publishable key and the
  connected-account id of the environment: the same two values that the page route of
  that server hands to its view.
\<close>

theorem config_returns_keys:
  "status (get_config env) = 200
   \<and> body (get_config env) =
       JObj [(''publishableKey'', process_env env ''STRIPE_PUBLISHABLE_KEY''),
             (''connectedAccountId'', process_env env ''STRIPE_CONNECTED_ACCOUNT_ID'')]
   \<and> body (get_config env) = JObj (locals (get_index_connected env))"
  by (simp add: get_config_def res_send_def get_index_connected_def)

section \<open>Traces are faithful\<close>

text \<open>
  The trace of a handler is what happened at the processor: replaying it from the initial
  state gives the final state.
\<close>

lemma trace_is_faithful:
  assumes h: "h = create_payment_intent stripe b \<or> h = create_setup_intent stripe b
             \<or> h = create_customer_setup_intent stripe b"
  shows "replay stripe (io_trace (h s)) s = Some (io_state (h s))"
proof (cases "customers_create stripe s")
  case (Pair r0 s1)
  show ?thesis
  proof (cases r0)
    case (Inl e)
    with Pair have c: "customers_create stripe s = (Inl e, s1)" by simp
    show ?thesis
      unfolding handler_customer_fails [OF h c] io_trace_def io_state_def
      by (simp add: c)
  next
    case (Inr customer)
    with Pair have c: "customers_create stripe s = (Inr customer, s1)" by simp
    from handler_second_call [OF h c] obtain call r s2 where
      "perform stripe call s1 = (r, s2)"
      "io_trace (h s) = [(CustomersCreate, Inr customer), (call, r)]"
      "io_state (h s) = s2"
      by blast
    then show ?thesis by (simp add: c)
  qed
qed

lemma failed_run:
  assumes h: "h = create_payment_intent stripe b \<or> h = create_setup_intent stripe b
             \<or> h = create_customer_setup_intent stripe b"
    and created: "(CustomersCreate, Inr customer) \<in> set (io_trace (h s))"
    and failed: "(call, Inl e) \<in> set (io_trace (h s))"
  shows "io_trace (h s) = [(CustomersCreate, Inr customer), (call, Inl e)]
       \<and> io_result (h s) = Inr (error_response e)"
proof (cases "customers_create stripe s")
  case (Pair r0 s1)
  show ?thesis
  proof (cases r0)
    case (Inl e0)
    with Pair have c: "customers_create stripe s = (Inl e0, s1)" by simp
    from created show ?thesis
      unfolding handler_customer_fails [OF h c] io_trace_def by simp
  next
    case (Inr c0)
    with Pair have c: "customers_create stripe s = (Inr c0, s1)" by simp
    from handler_second_call [OF h c] obtain call' r where
      n: "call' \<noteq> CustomersCreate" and
      t: "io_trace (h s) = [(CustomersCreate, Inr c0), (call', r)]" and
      k: "\<forall>e. r = Inl e \<longrightarrow> io_result (h s) = Inr (error_response e)"
      by blast
    from created n have "customer = c0" unfolding t by auto
    moreover from failed have "call = call'" "r = Inl e" unfolding t by auto
    ultimately show ?thesis using t k by simp
  qed
qed

section \<open>The customer of a failed run\<close>

text \<open>
  Claim C8. For each of the three POST handlers: when the customer was created and the
  intent creation then failed, the failed call is the last call the handler makes on
  the client. The processor is left in the state that these two calls produce, so the
  customer just created is still there, and the handler answers with the error.
\<close>

theorem orphaned_customer_left_in_place:
  assumes "h = create_payment_intent stripe req_body \<or> h = create_setup_intent stripe req_body
             \<or> h = create_customer_setup_intent stripe req_body"
    and "(CustomersCreate, Inr customer) \<in> set (io_trace (h s))"
    and "(call, Inl e) \<in> set (io_trace (h s))"
  shows "io_trace (h s) = [(CustomersCreate, Inr customer), (call, Inl e)]
       \<and> replay stripe [(CustomersCreate, Inr customer), (call, Inl e)] s = Some (io_state (h s))
       \<and> io_result (h s) =
           Inr \<lparr>status = 400,
                body = JObj [(''error'', JObj [(''message'', JStr (message e))])]\<rparr>"
  using failed_run [OF assms] trace_is_faithful [OF assms(1), of s] by simp

theorem orphaned_customer_left_in_place_witness:
  "io_trace (create_payment_intent
       (fake_stripe (Inr customer_1) (Inl (Error ''Invalid integer: abc'')))
       [(''amount'', JStr ''abc'')] 0)
     = [(CustomersCreate, Inr customer_1),
        (PaymentIntentsCreate
           [(''amount'', JStr ''abc''), (''currency'', JStr ''gbp''),
            (''customer'', JStr ''cus_1''), (''payment_method_types'', JArr [JStr ''card''])],
         Inl (Error ''Invalid integer: abc''))]
   \<and> io_state (create_payment_intent
       (fake_stripe (Inr customer_1) (Inl (Error ''Invalid integer: abc'')))
       [(''amount'', JStr ''abc'')] 0) = Suc 0"
proof -
  let ?stripe = "fake_stripe (Inr customer_1) (Inl (Error ''Invalid integer: abc''))"
  let ?b = "[(''amount'', JStr ''abc'')]"
  let ?call = "PaymentIntentsCreate
           [(''amount'', JStr ''abc''), (''currency'', JStr ''gbp''),
            (''customer'', JStr ''cus_1''), (''payment_method_types'', JArr [JStr ''card''])]"
  have t: "io_trace (create_payment_intent ?stripe ?b 0)
             = [(CustomersCreate, Inr customer_1), (?call, Inl (Error ''Invalid integer: abc''))]"
    unfolding fake_pay_now_intent_fails io_trace_def by (simp add: get_prop_def)
  have 1: "(CustomersCreate, Inr customer_1) \<in> set (io_trace (create_payment_intent ?stripe ?b 0))"
    unfolding t by simp
  have 2: "(?call, Inl (Error ''Invalid integer: abc''))
             \<in> set (io_trace (create_payment_intent ?stripe ?b 0))"
    unfolding t by simp
  have r: "replay ?stripe
             [(CustomersCreate, Inr customer_1), (?call, Inl (Error ''Invalid integer: abc''))] 0
           = Some (Suc 0)"
    by (simp add: fake_stripe_def)
  from orphaned_customer_left_in_place
         [of "create_payment_intent ?stripe ?b" ?stripe ?b customer_1 0 ?call
             "Error ''Invalid integer: abc''", OF _ 1 2] r
  show ?thesis by simp
qed

section \<open>The amount is not validated\<close>

text \<open>
  Claim C6. \<^verbatim>\<open>POST /create-payment-intent\<close> does not validate \<^verbatim>\<open>amount\<close>. Whatever the request
  body, the handler first calls \<^verbatim>\<open>stripe.customers.create\<close>; if that succeeds it calls
  \<^verbatim>\<open>stripe.paymentIntents.create\<close> with an \<^verbatim>\<open>amount\<close> property equal to the body's
  \<^verbatim>\<open>amount\<close> (\<^verbatim>\<open>undefined\<close> when the body has none). The handler always answers, and an answer
  with status 400 always carries the message of an exception that the processor threw
  in this run.
\<close>

theorem amount_forwarded_unchecked:
  "\<exists>r rest.
     io_trace (create_payment_intent stripe req_body s) = (CustomersCreate, r) # rest
     \<and> r = fst (customers_create stripe s)
     \<and> (\<forall>customer. r = Inr customer \<longrightarrow>
           (\<exists>options r'. rest = [(PaymentIntentsCreate options, r')]
              \<and> has_prop options ''amount''
              \<and> get_prop options ''amount'' = get_prop req_body ''amount''))
     \<and> (\<exists>resp. io_result (create_payment_intent stripe req_body s) = Inr resp
           \<and> (status resp = 400 \<longrightarrow>
                 (\<exists>call e. (call, Inl e) \<in> set (io_trace (create_payment_intent stripe req_body s))
                    \<and> resp = \<lparr>status = 400,
                           body = JObj [(''error'', JObj [(''message'', JStr (message e))])]\<rparr>)))"
proof (cases rule: create_payment_intent_shapes [of stripe s req_body])
  case (customer_fails e s1)
  then show ?thesis by (simp add: io_trace_def io_result_def)
next
  case (intent_fails customer s1 e s2)
  then show ?thesis
    using payment_options_amount [of req_body customer]
    by (simp add: io_trace_def io_result_def)
next
  case (succeeds customer s1 paymentIntent s2)
  then show ?thesis
    using payment_options_amount [of req_body customer]
    by (simp add: io_trace_def io_result_def)
qed

theorem amount_forwarded_unchecked_witness:
  "(\<exists>options r'.
      io_trace (create_payment_intent
         (fake_stripe (Inr customer_1) (Inl (Error ''Missing required param: amount.''))) [] 0)
        = [(CustomersCreate, Inr customer_1), (PaymentIntentsCreate options, r')]
      \<and> get_prop options ''amount'' = JUndefined)
   \<and> io_result (create_payment_intent
         (fake_stripe (Inr customer_1) (Inl (Error ''Missing required param: amount.''))) [] 0)
       = Inr \<lparr>status = 400,
              body = JObj [(''error'',
                            JObj [(''message'', JStr ''Missing required param: amount.'')])]\<rparr>"
proof -
  let ?stripe = "fake_stripe (Inr customer_1) (Inl (Error ''Missing required param: amount.''))"
  from amount_forwarded_unchecked [of ?stripe "[]" 0] obtain r rest where
    t: "io_trace (create_payment_intent ?stripe [] 0) = (CustomersCreate, r) # rest" and
    r: "r = fst (customers_create ?stripe 0)" and
    k: "\<forall>customer. r = Inr customer \<longrightarrow>
           (\<exists>options r'. rest = [(PaymentIntentsCreate options, r')]
              \<and> has_prop options ''amount''
              \<and> get_prop options ''amount'' = get_prop [] ''amount'')"
    by (elim exE conjE) (rule that, assumption+)
  from r have r': "r = Inr customer_1" by (simp add: fake_customers_create_ok)
  with k obtain options r' where
    "rest = [(PaymentIntentsCreate options, r')]"
    "get_prop options ''amount'' = get_prop [] ''amount''"
    by blast
  with t r' have a: "\<exists>options r'.
      io_trace (create_payment_intent ?stripe [] 0)
        = [(CustomersCreate, Inr customer_1), (PaymentIntentsCreate options, r')]
      \<and> get_prop options ''amount'' = JUndefined"
    by (simp add: get_prop_def)
  have b: "io_result (create_payment_intent ?stripe [] 0)
             = Inr (error_response (Error ''Missing required param: amount.''))"
    unfolding fake_pay_now_intent_fails io_result_def by simp
  from a b show ?thesis by simp
qed

section \<open>The currency\<close>

text \<open>
  Claim C7. Once the customer is created, \<^verbatim>\<open>POST /create-payment-intent\<close> calls
  \<^verbatim>\<open>stripe.paymentIntents.create\<close>, and in the options of every such call \<^verbatim>\<open>currency\<close> is the
  three-letter code \<^verbatim>\<open>'gbp'\<close> when the request's \<^verbatim>\<open>currency\<close> is absent or the empty string,
  and is the request's \<^verbatim>\<open>currency\<close> unchanged when that is a non-empty string.
\<close>

theorem currency_defaults_to_gbp:
  "(\<forall>customer s1. customers_create stripe s = (Inr customer, s1) \<longrightarrow>
      (\<exists>options r. io_trace (create_payment_intent stripe req_body s)
                      = [(CustomersCreate, Inr customer), (PaymentIntentsCreate options, r)]))
   \<and> (\<forall>options r. (PaymentIntentsCreate options, r)
                      \<in> set (io_trace (create_payment_intent stripe req_body s)) \<longrightarrow>
         (\<not> has_prop req_body ''currency'' \<or> get_prop req_body ''currency'' = JStr [] \<longrightarrow>
            get_prop options ''currency'' = JStr ''gbp'')
       \<and> (\<forall>c. c \<noteq> [] \<and> get_prop req_body ''currency'' = JStr c \<longrightarrow>
            get_prop options ''currency'' = JStr c))
   \<and> length ''gbp'' = 3"
proof (intro conjI allI impI)
  fix customer s1
  assume c: "customers_create stripe s = (Inr customer, s1)"
  from payment_after_customer [OF c, of req_body]
  show "\<exists>options r. io_trace (create_payment_intent stripe req_body s)
                      = [(CustomersCreate, Inr customer), (PaymentIntentsCreate options, r)]"
    by blast
next
  fix options r
  assume m: "(PaymentIntentsCreate options, r)
               \<in> set (io_trace (create_payment_intent stripe req_body s))"
  assume a: "\<not> has_prop req_body ''currency'' \<or> get_prop req_body ''currency'' = JStr []"
  from payment_call_options [OF m] obtain customer
    where o: "options = payment_options req_body customer" ..
  from a show "get_prop options ''currency'' = JStr ''gbp''"
    unfolding o payment_options_currency by (auto dest: absent_prop)
next
  fix options r c
  assume m: "(PaymentIntentsCreate options, r)
               \<in> set (io_trace (create_payment_intent stripe req_body s))"
  assume a: "c \<noteq> [] \<and> get_prop req_body ''currency'' = JStr c"
  from payment_call_options [OF m] obtain customer
    where o: "options = payment_options req_body customer" ..
  from a show "get_prop options ''currency'' = JStr c"
    unfolding o payment_options_currency by simp
next
  show "length ''gbp'' = 3" by simp
qed

theorem currency_defaults_to_gbp_witness:
  "io_trace (create_payment_intent (fake_stripe (Inr customer_1) (Inr intent_1))
       [(''amount'', JNum (Finite 500))] 0)
     = [(CustomersCreate, Inr customer_1),
        (PaymentIntentsCreate
           [(''amount'', JNum (Finite 500)), (''currency'', JStr ''gbp''),
            (''customer'', JStr ''cus_1''), (''payment_method_types'', JArr [JStr ''card''])],
         Inr intent_1)]
   \<and> io_trace (create_payment_intent (fake_stripe (Inr customer_1) (Inr intent_1))
       [(''amount'', JNum (Finite 500)), (''currency'', JStr [])] 0)
     = [(CustomersCreate, Inr customer_1),
        (PaymentIntentsCreate
           [(''amount'', JNum (Finite 500)), (''currency'', JStr ''gbp''),
            (''customer'', JStr ''cus_1''), (''payment_method_types'', JArr [JStr ''card''])],
         Inr intent_1)]
   \<and> io_trace (create_payment_intent (fake_stripe (Inr customer_1) (Inr intent_1))
       [(''amount'', JNum (Finite 500)), (''currency'', JStr ''usd'')] 0)
     = [(CustomersCreate, Inr customer_1),
        (PaymentIntentsCreate
           [(''amount'', JNum (Finite 500)), (''currency'', JStr ''usd''),
            (''customer'', JStr ''cus_1''), (''payment_method_types'', JArr [JStr ''card''])],
         Inr intent_1)]
   \<and> get_prop
       [(''amount'', JNum (Finite 500)), (''currency'', JStr ''gbp''),
            (''customer'', JStr ''cus_1''), (''payment_method_types'', JArr [JStr ''card''])] ''currency'' = JStr ''gbp''
   \<and> get_prop
       [(''amount'', JNum (Finite 500)), (''currency'', JStr ''usd''),
            (''customer'', JStr ''cus_1''), (''payment_method_types'', JArr [JStr ''card''])] ''currency'' = JStr ''usd''"
proof -
  let ?stripe = "fake_stripe (Inr customer_1) (Inr intent_1)"
  have t1: "io_trace (create_payment_intent ?stripe [(''amount'', JNum (Finite 500))] 0)
     = [(CustomersCreate, Inr customer_1),
        (PaymentIntentsCreate
           [(''amount'', JNum (Finite 500)), (''currency'', JStr ''gbp''),
            (''customer'', JStr ''cus_1''), (''payment_method_types'', JArr [JStr ''card''])],
         Inr intent_1)]"
    unfolding fake_pay_now_succeeds io_trace_def by (simp add: get_prop_def)
  have m1: "(PaymentIntentsCreate
           [(''amount'', JNum (Finite 500)), (''currency'', JStr ''gbp''),
            (''customer'', JStr ''cus_1''), (''payment_method_types'', JArr [JStr ''card''])],
         Inr intent_1) \<in> set (io_trace (create_payment_intent ?stripe [(''amount'', JNum (Finite 500))] 0))"
    unfolding t1 by simp
  have t2: "io_trace (create_payment_intent ?stripe [(''amount'', JNum (Finite 500)), (''currency'', JStr [])] 0)
     = [(CustomersCreate, Inr customer_1),
        (PaymentIntentsCreate
           [(''amount'', JNum (Finite 500)), (''currency'', JStr ''gbp''),
            (''customer'', JStr ''cus_1''), (''payment_method_types'', JArr [JStr ''card''])],
         Inr intent_1)]"
    unfolding fake_pay_now_succeeds io_trace_def by (simp add: get_prop_def)
  have m2: "(PaymentIntentsCreate
           [(''amount'', JNum (Finite 500)), (''currency'', JStr ''gbp''),
            (''customer'', JStr ''cus_1''), (''payment_method_types'', JArr [JStr ''card''])],
         Inr intent_1) \<in> set (io_trace (create_payment_intent ?stripe [(''amount'', JNum (Finite 500)), (''currency'', JStr [])] 0))"
    unfolding t2 by simp
  have t3: "io_trace (create_payment_intent ?stripe [(''amount'', JNum (Finite 500)), (''currency'', JStr ''usd'')] 0)
     = [(CustomersCreate, Inr customer_1),
        (PaymentIntentsCreate
           [(''amount'', JNum (Finite 500)), (''currency'', JStr ''usd''),
            (''customer'', JStr ''cus_1''), (''payment_method_types'', JArr [JStr ''card''])],
         Inr intent_1)]"
    unfolding fake_pay_now_succeeds io_trace_def by (simp add: get_prop_def)
  have m3: "(PaymentIntentsCreate
           [(''amount'', JNum (Finite 500)), (''currency'', JStr ''usd''),
            (''customer'', JStr ''cus_1''), (''payment_method_types'', JArr [JStr ''card''])],
         Inr intent_1) \<in> set (io_trace (create_payment_intent ?stripe [(''amount'', JNum (Finite 500)), (''currency'', JStr ''usd'')] 0))"
    unfolding t3 by simp
  have 1: "\<not> has_prop [(''amount'', JNum (Finite 500))] ''currency''"
    by (simp add: has_prop_def)
  have 3: "''usd'' \<noteq> [] \<and>
           get_prop [(''amount'', JNum (Finite 500)), (''currency'', JStr ''usd'')] ''currency''
             = JStr ''usd''"
    by (simp add: get_prop_def)
  from currency_defaults_to_gbp [of ?stripe 0 "[(''amount'', JNum (Finite 500))]"] m1 1
  have a: "get_prop
       [(''amount'', JNum (Finite 500)), (''currency'', JStr ''gbp''),
            (''customer'', JStr ''cus_1''), (''payment_method_types'', JArr [JStr ''card''])] ''currency'' = JStr ''gbp''"
    by blast
  from currency_defaults_to_gbp
         [of ?stripe 0 "[(''amount'', JNum (Finite 500)), (''currency'', JStr ''usd'')]"] m3 3
  have c: "get_prop
       [(''amount'', JNum (Finite 500)), (''currency'', JStr ''usd''),
            (''customer'', JStr ''cus_1''), (''payment_method_types'', JArr [JStr ''card''])] ''currency'' = JStr ''usd''"
    by blast
  from t1 t2 t3 a c show ?thesis by (intro conjI)
qed

section \<open>Truthiness of saveCard\<close>

text \<open>
  Claim C9. The test on \<^verbatim>\<open>saveCard\<close> is truthiness. Once the customer is created,
  \<^verbatim>\<open>POST /create-payment-intent\<close> calls \<^verbatim>\<open>stripe.paymentIntents.create\<close>, and the options of
  every such call carry \<^verbatim>\<open>setup_future_usage = 'off_session'\<close> for every truthy \<^verbatim>\<open>saveCard\<close>
  (any non-empty string, such as \<^verbatim>\<open>"false"\<close>, any non-zero finite number, \<^verbatim>\<open>true\<close>) and have
  no such property for every falsy one (\<^verbatim>\<open>false\<close>, 0, \<^verbatim>\<open>null\<close>, the empty string, absent).
\<close>

theorem save_card_is_truthiness:
  assumes "saveCard = get_prop req_body ''saveCard''"
  shows
  "(\<forall>customer s1. customers_create stripe s = (Inr customer, s1) \<longrightarrow>
      (\<exists>options r. io_trace (create_payment_intent stripe req_body s)
                      = [(CustomersCreate, Inr customer), (PaymentIntentsCreate options, r)]))
   \<and> (\<forall>options r. (PaymentIntentsCreate options, r)
                      \<in> set (io_trace (create_payment_intent stripe req_body s)) \<longrightarrow>
         (to_boolean saveCard \<longrightarrow>
            get_prop options ''setup_future_usage'' = JStr ''off_session'')
       \<and> (\<not> to_boolean saveCard \<longrightarrow> \<not> has_prop options ''setup_future_usage'')
       \<and> ((\<exists>str. str \<noteq> [] \<and> saveCard = JStr str) \<or> (\<exists>q. q \<noteq> 0 \<and> saveCard = JNum (Finite q))
             \<or> saveCard = JBool True \<longrightarrow>
            get_prop options ''setup_future_usage'' = JStr ''off_session'')
       \<and> (saveCard = JBool False \<or> saveCard = JNum (Finite 0) \<or> saveCard = JNull
             \<or> saveCard = JStr [] \<or> \<not> has_prop req_body ''saveCard'' \<longrightarrow>
            \<not> has_prop options ''setup_future_usage''))"
proof (intro conjI allI impI)
  fix customer s1
  assume c: "customers_create stripe s = (Inr customer, s1)"
  from payment_after_customer [OF c, of req_body]
  show "\<exists>options r. io_trace (create_payment_intent stripe req_body s)
                      = [(CustomersCreate, Inr customer), (PaymentIntentsCreate options, r)]"
    by blast
next
  fix options r
  assume m: "(PaymentIntentsCreate options, r)
               \<in> set (io_trace (create_payment_intent stripe req_body s))"
  from payment_call_options [OF m] obtain customer
    where o: "options = payment_options req_body customer" ..
  assume "to_boolean saveCard"
  then show "get_prop options ''setup_future_usage'' = JStr ''off_session''"
    unfolding o assms by (rule payment_options_future_usage(2))
next
  fix options r
  assume m: "(PaymentIntentsCreate options, r)
               \<in> set (io_trace (create_payment_intent stripe req_body s))"
  from payment_call_options [OF m] obtain customer
    where o: "options = payment_options req_body customer" ..
  assume "\<not> to_boolean saveCard"
  then show "\<not> has_prop options ''setup_future_usage''"
    unfolding o assms payment_options_future_usage(1) .
next
  fix options r
  assume m: "(PaymentIntentsCreate options, r)
               \<in> set (io_trace (create_payment_intent stripe req_body s))"
  from payment_call_options [OF m] obtain customer
    where o: "options = payment_options req_body customer" ..
  assume "(\<exists>str. str \<noteq> [] \<and> saveCard = JStr str) \<or> (\<exists>q. q \<noteq> 0 \<and> saveCard = JNum (Finite q))
            \<or> saveCard = JBool True"
  then have "to_boolean saveCard" by auto
  then show "get_prop options ''setup_future_usage'' = JStr ''off_session''"
    unfolding o assms by (rule payment_options_future_usage(2))
next
  fix options r
  assume m: "(PaymentIntentsCreate options, r)
               \<in> set (io_trace (create_payment_intent stripe req_body s))"
  from payment_call_options [OF m] obtain customer
    where o: "options = payment_options req_body customer" ..
  assume "saveCard = JBool False \<or> saveCard = JNum (Finite 0) \<or> saveCard = JNull
            \<or> saveCard = JStr [] \<or> \<not> has_prop req_body ''saveCard''"
  then have "\<not> to_boolean saveCard"
    unfolding assms by (auto dest: absent_prop)
  then show "\<not> has_prop options ''setup_future_usage''"
    unfolding o assms payment_options_future_usage(1) .
qed

theorem save_card_is_truthiness_witness:
  "io_trace (create_payment_intent (fake_stripe (Inr customer_1) (Inr intent_1))
       (pay_now_body (JStr ''false'')) 0)
     = [(CustomersCreate, Inr customer_1),
        (PaymentIntentsCreate
           [(''amount'', JNum (Finite 500)), (''currency'', JStr ''gbp''),
            (''customer'', JStr ''cus_1''), (''payment_method_types'', JArr [JStr ''card'']),
            (''setup_future_usage'', JStr ''off_session'')],
         Inr intent_1)]
   \<and> io_trace (create_payment_intent (fake_stripe (Inr customer_1) (Inr intent_1))
       (pay_now_body (JNum (Finite 1))) 0)
     = [(CustomersCreate, Inr customer_1),
        (PaymentIntentsCreate
           [(''amount'', JNum (Finite 500)), (''currency'', JStr ''gbp''),
            (''customer'', JStr ''cus_1''), (''payment_method_types'', JArr [JStr ''card'']),
            (''setup_future_usage'', JStr ''off_session'')],
         Inr intent_1)]
   \<and> io_trace (create_payment_intent (fake_stripe (Inr customer_1) (Inr intent_1))
       (pay_now_body (JBool False)) 0)
     = [(CustomersCreate, Inr customer_1),
        (PaymentIntentsCreate
           [(''amount'', JNum (Finite 500)), (''currency'', JStr ''gbp''),
            (''customer'', JStr ''cus_1''), (''payment_method_types'', JArr [JStr ''card''])],
         Inr intent_1)]
   \<and> io_trace (create_payment_intent (fake_stripe (Inr customer_1) (Inr intent_1))
       (pay_now_body (JNum (Finite 0))) 0)
     = [(CustomersCreate, Inr customer_1),
        (PaymentIntentsCreate
           [(''amount'', JNum (Finite 500)), (''currency'', JStr ''gbp''),
            (''customer'', JStr ''cus_1''), (''payment_method_types'', JArr [JStr ''card''])],
         Inr intent_1)]
   \<and> io_trace (create_payment_intent (fake_stripe (Inr customer_1) (Inr intent_1))
       (pay_now_body JNull) 0)
     = [(CustomersCreate, Inr customer_1),
        (PaymentIntentsCreate
           [(''amount'', JNum (Finite 500)), (''currency'', JStr ''gbp''),
            (''customer'', JStr ''cus_1''), (''payment_method_types'', JArr [JStr ''card''])],
         Inr intent_1)]
   \<and> io_trace (create_payment_intent (fake_stripe (Inr customer_1) (Inr intent_1))
       (pay_now_body (JStr [])) 0)
     = [(CustomersCreate, Inr customer_1),
        (PaymentIntentsCreate
           [(''amount'', JNum (Finite 500)), (''currency'', JStr ''gbp''),
            (''customer'', JStr ''cus_1''), (''payment_method_types'', JArr [JStr ''card''])],
         Inr intent_1)]
   \<and> io_trace (create_payment_intent (fake_stripe (Inr customer_1) (Inr intent_1))
       [(''amount'', JNum (Finite 500))] 0)
     = [(CustomersCreate, Inr customer_1),
        (PaymentIntentsCreate
           [(''amount'', JNum (Finite 500)), (''currency'', JStr ''gbp''),
            (''customer'', JStr ''cus_1''), (''payment_method_types'', JArr [JStr ''card''])],
         Inr intent_1)]
   \<and> get_prop
       [(''amount'', JNum (Finite 500)), (''currency'', JStr ''gbp''),
            (''customer'', JStr ''cus_1''), (''payment_method_types'', JArr [JStr ''card'']),
            (''setup_future_usage'', JStr ''off_session'')] ''setup_future_usage'' = JStr ''off_session''
   \<and> \<not> has_prop
       [(''amount'', JNum (Finite 500)), (''currency'', JStr ''gbp''),
            (''customer'', JStr ''cus_1''), (''payment_method_types'', JArr [JStr ''card''])] ''setup_future_usage''"
proof -
  let ?stripe = "fake_stripe (Inr customer_1) (Inr intent_1)"
  have t1: "io_trace (create_payment_intent ?stripe
       (pay_now_body (JStr ''false'')) 0)
     = [(CustomersCreate, Inr customer_1),
        (PaymentIntentsCreate
           [(''amount'', JNum (Finite 500)), (''currency'', JStr ''gbp''),
            (''customer'', JStr ''cus_1''), (''payment_method_types'', JArr [JStr ''card'']),
            (''setup_future_usage'', JStr ''off_session'')],
         Inr intent_1)]"
    unfolding fake_pay_now_succeeds io_trace_def by (simp add: get_prop_def)
  have t2: "io_trace (create_payment_intent ?stripe
       (pay_now_body (JNum (Finite 1))) 0)
     = [(CustomersCreate, Inr customer_1),
        (PaymentIntentsCreate
           [(''amount'', JNum (Finite 500)), (''currency'', JStr ''gbp''),
            (''customer'', JStr ''cus_1''), (''payment_method_types'', JArr [JStr ''card'']),
            (''setup_future_usage'', JStr ''off_session'')],
         Inr intent_1)]"
    unfolding fake_pay_now_succeeds io_trace_def by (simp add: get_prop_def)
  have t3: "io_trace (create_payment_intent ?stripe
       (pay_now_body (JBool False)) 0)
     = [(CustomersCreate, Inr customer_1),
        (PaymentIntentsCreate
           [(''amount'', JNum (Finite 500)), (''currency'', JStr ''gbp''),
            (''customer'', JStr ''cus_1''), (''payment_method_types'', JArr [JStr ''card''])],
         Inr intent_1)]"
    unfolding fake_pay_now_succeeds io_trace_def by (simp add: get_prop_def)
  have t4: "io_trace (create_payment_intent ?stripe
       (pay_now_body (JNum (Finite 0))) 0)
     = [(CustomersCreate, Inr customer_1),
        (PaymentIntentsCreate
           [(''amount'', JNum (Finite 500)), (''currency'', JStr ''gbp''),
            (''customer'', JStr ''cus_1''), (''payment_method_types'', JArr [JStr ''card''])],
         Inr intent_1)]"
    unfolding fake_pay_now_succeeds io_trace_def by (simp add: get_prop_def)
  have t5: "io_trace (create_payment_intent ?stripe
       (pay_now_body JNull) 0)
     = [(CustomersCreate, Inr customer_1),
        (PaymentIntentsCreate
           [(''amount'', JNum (Finite 500)), (''currency'', JStr ''gbp''),
            (''customer'', JStr ''cus_1''), (''payment_method_types'', JArr [JStr ''card''])],
         Inr intent_1)]"
    unfolding fake_pay_now_succeeds io_trace_def by (simp add: get_prop_def)
  have t6: "io_trace (create_payment_intent ?stripe
       (pay_now_body (JStr [])) 0)
     = [(CustomersCreate, Inr customer_1),
        (PaymentIntentsCreate
           [(''amount'', JNum (Finite 500)), (''currency'', JStr ''gbp''),
            (''customer'', JStr ''cus_1''), (''payment_method_types'', JArr [JStr ''card''])],
         Inr intent_1)]"
    unfolding fake_pay_now_succeeds io_trace_def by (simp add: get_prop_def)
  have t7: "io_trace (create_payment_intent ?stripe
       [(''amount'', JNum (Finite 500))] 0)
     = [(CustomersCreate, Inr customer_1),
        (PaymentIntentsCreate
           [(''amount'', JNum (Finite 500)), (''currency'', JStr ''gbp''),
            (''customer'', JStr ''cus_1''), (''payment_method_types'', JArr [JStr ''card''])],
         Inr intent_1)]"
    unfolding fake_pay_now_succeeds io_trace_def by (simp add: get_prop_def)
  have m1: "(PaymentIntentsCreate
           [(''amount'', JNum (Finite 500)), (''currency'', JStr ''gbp''),
            (''customer'', JStr ''cus_1''), (''payment_method_types'', JArr [JStr ''card'']),
            (''setup_future_usage'', JStr ''off_session'')],
         Inr intent_1)
      \<in> set (io_trace (create_payment_intent ?stripe (pay_now_body (JStr ''false'')) 0))"
    unfolding t1 by simp
  have m4: "(PaymentIntentsCreate
           [(''amount'', JNum (Finite 500)), (''currency'', JStr ''gbp''),
            (''customer'', JStr ''cus_1''), (''payment_method_types'', JArr [JStr ''card''])],
         Inr intent_1)
      \<in> set (io_trace (create_payment_intent ?stripe (pay_now_body (JNum (Finite 0))) 0))"
    unfolding t4 by simp
  have g: "v = get_prop (pay_now_body v) ''saveCard''" for v
    by (simp add: get_prop_def)
  have s: "''false'' \<noteq> []" by simp
  from save_card_is_truthiness [OF g [of "JStr ''false''"], of ?stripe 0] m1 s
  have a: "get_prop
       [(''amount'', JNum (Finite 500)), (''currency'', JStr ''gbp''),
            (''customer'', JStr ''cus_1''), (''payment_method_types'', JArr [JStr ''card'']),
            (''setup_future_usage'', JStr ''off_session'')] ''setup_future_usage'' = JStr ''off_session''"
    by blast
  from save_card_is_truthiness [OF g [of "JNum (Finite 0)"], of ?stripe 0] m4
  have b: "\<not> has_prop
       [(''amount'', JNum (Finite 500)), (''currency'', JStr ''gbp''),
            (''customer'', JStr ''cus_1''), (''payment_method_types'', JArr [JStr ''card''])] ''setup_future_usage''"
    by blast
  from t1 t2 t3 t4 t5 t6 t7 a b show ?thesis by (intro conjI)
qed

end
